theory Spec2Isabelle
  imports Main
begin

section \<open>JavaScript values\<close>

text \<open>
  The server of \<^verbatim>\<open>src/lib/server.js\<close> handles values of no fixed type: an error
  passed to \<^verbatim>\<open>next(err)\<close> is any value, and so are its properties. Primitive
  values are kept apart from object references, since only a primitive is converted to a
  property key or to a string without running user code. Numbers are the integers that a
  double holds exactly (magnitude below 2 to the power 53) and \<^verbatim>\<open>NaN\<close>; fractions are
  not needed for status codes. An object or function is an opaque reference with a label.
\<close>

datatype jsprim =
    Undefined
  | Null
  | Boolean bool
  | Number int
  | NaN
  | String string

datatype jsval =
    Prim jsprim
  | Object string

text \<open>ToBoolean: what \<^verbatim>\<open>a || b\<close>, \<^verbatim>\<open>a && b\<close> and \<^verbatim>\<open>a ? b : c\<close> test.\<close>

fun truthy_prim :: "jsprim \<Rightarrow> bool" where
  "truthy_prim Undefined = False"
| "truthy_prim Null = False"
| "truthy_prim (Boolean b) = b"
| "truthy_prim (Number n) = (n \<noteq> 0)"
| "truthy_prim NaN = False"
| "truthy_prim (String s) = (s \<noteq> [])"

fun truthy :: "jsval \<Rightarrow> bool" where
  "truthy (Prim p) = truthy_prim p"
| "truthy (Object l) = True"

section \<open>Errors and the classification table\<close>

text \<open>
  An error object, with the three properties the error handler reads. A property that
  is not there reads as \<^verbatim>\<open>undefined\<close>. The name and the message are primitive
  values (strings, when the error is well formed); the status code is any value. The
  value handed to the handler is an object or a primitive (\<^verbatim>\<open>next('boom')\<close> is
  legal in Express).
\<close>

record error_obj =
  name :: jsprim
  message :: jsprim
  statusCode :: jsval

datatype js_err =
    ErrPrim jsprim
  | ErrObj error_obj

text \<open>
  \<^verbatim>\<open>Server.statusCodeByErrorName = { ValidationError: 400, CastError: 400 }\<close>
  (lines 138 to 141): the own properties of the table, in source order.
\<close>

definition statusCodeByErrorName :: "(string \<times> jsval) list" where
  "statusCodeByErrorName =
     [(''ValidationError'', Prim (Number 400)),
      (''CastError'', Prim (Number 400))]"

text \<open>
  The table is an object literal, so its prototype is \<^verbatim>\<open>Object.prototype\<close> and a
  property read that finds no own property continues there. These are the properties of
  \<^verbatim>\<open>Object.prototype\<close>; each holds a function, except \<^verbatim>\<open>__proto__\<close>,
  an accessor that yields \<^verbatim>\<open>Object.prototype\<close> itself.
\<close>

definition object_prototype_keys :: "string list" where
  "object_prototype_keys =
     [''constructor'', ''hasOwnProperty'', ''isPrototypeOf'', ''propertyIsEnumerable'',
      ''toLocaleString'', ''toString'', ''valueOf'', ''__proto__'',
      ''__defineGetter__'', ''__defineSetter__'', ''__lookupGetter__'', ''__lookupSetter__'']"

definition object_prototype_get :: "string \<Rightarrow> jsval" where
  "object_prototype_get k =
     (if k = ''__proto__'' then Object ''Object.prototype''
      else if k = ''constructor'' then Object ''Object''
      else if k \<in> set object_prototype_keys then Object (''Object.prototype.'' @ k)
      else Prim Undefined)"

text \<open>\<^verbatim>\<open>obj[k]\<close> for a string key on an object literal with the given own properties.\<close>

definition get_property :: "(string \<times> jsval) list \<Rightarrow> string \<Rightarrow> jsval" where
  "get_property own k =
     (case map_of own k of
        Some v \<Rightarrow> v
      | None \<Rightarrow> object_prototype_get k)"

text \<open>
  \<^verbatim>\<open>Server.statusCodeByErrorName[err.name]\<close> (line 129). A string is its own
  property key. Any other primitive is first converted to a string:
  \<^verbatim>\<open>'undefined'\<close>, \<^verbatim>\<open>'null'\<close>, \<^verbatim>\<open>'true'\<close>, \<^verbatim>\<open>'false'\<close>,
  \<^verbatim>\<open>'NaN'\<close> or a numeral, and none of these is a property of the table or of
  \<^verbatim>\<open>Object.prototype\<close>, so the read yields \<^verbatim>\<open>undefined\<close>.
\<close>

fun lookupStatusCode :: "jsprim \<Rightarrow> jsval" where
  "lookupStatusCode (String k) = get_property statusCodeByErrorName k"
| "lookupStatusCode _ = Prim Undefined"

section \<open>The collaborators, as a trace of calls\<close>

text \<open>
  The logger and the Express response are not part of the repository. A logger is the
  chain of \<^verbatim>\<open>child\<close> calls that made it, each with the context object it was
  given; a call on a logger or on the response is an event of a trace, in the order the
  calls happen. \<^verbatim>\<open>err.toString()\<close> is a method of the error, so its calls are
  events too. A trace holds the calls that returned. The calls of the logger and of
  \<^verbatim>\<open>toString\<close> are taken to return, and so is \<^verbatim>\<open>res.status\<close>, which in
  Express 4 only stores the status; \<^verbatim>\<open>res.send\<close> returns or throws as set out
  with \<open>statusAccepted\<close> below.
\<close>

datatype logger =
    RootLogger
  | Child logger "(string \<times> string) list"

datatype level = LInfo | LVerbose | LError

text \<open>\<^verbatim>\<open>prettyMs(n)\<close>: the readable form that the package \<^verbatim>\<open>pretty-ms\<close> gives
  to a number of milliseconds.\<close>

datatype duration = PrettyMs int

datatype meta =
    IncomingMeta string string string "string \<rightharpoonup> string" "string \<rightharpoonup> string"
  | OutgoingMeta string string string jsval duration
  | ErrMeta error_obj
  | TextMeta string

datatype event =
    LoggerCall logger level string meta
  | ErrToString
  | ResStatus jsval
  | ResSend jsval

datatype exn = TypeError | RangeError

datatype completion = Returned | Threw exn

section \<open>The default string form of an error\<close>

text \<open>ToString on a primitive value; an integer of the model (magnitude below 2 to the
  power 53) prints in decimal.\<close>

fun digitsOf :: "nat \<Rightarrow> string" where
  "digitsOf n =
     (if n < 10 then [char_of (48 + n)]
      else digitsOf (n div 10) @ [char_of (48 + n mod 10)])"

declare digitsOf.simps [simp del]

fun toStringPrim :: "jsprim \<Rightarrow> string" where
  "toStringPrim Undefined = ''undefined''"
| "toStringPrim Null = ''null''"
| "toStringPrim (Boolean b) = (if b then ''true'' else ''false'')"
| "toStringPrim (Number n) = (if n < 0 then ''-'' @ digitsOf (nat (- n)) else digitsOf (nat n))"
| "toStringPrim NaN = ''NaN''"
| "toStringPrim (String s) = s"

text \<open>
  \<^verbatim>\<open>Error.prototype.toString\<close>, the method that \<^verbatim>\<open>err.toString()\<close> reaches
  unless the error's class defines its own: the name (\<^verbatim>\<open>'Error'\<close> when
  undefined) and the message (empty when undefined), joined by a colon and a space when
  both are non-empty.
\<close>

definition errorToString :: "error_obj \<Rightarrow> string" where
  "errorToString e =
     (let n = (if name e = Undefined then ''Error'' else toStringPrim (name e));
          m = (if message e = Undefined then [] else toStringPrim (message e))
      in if n = [] then m else if m = [] then n else n @ '': '' @ m)"

section \<open>The statuses that the response accepts\<close>

text \<open>
  \<^verbatim>\<open>res.send\<close> ends the response, and Node then writes the head with
  \<^verbatim>\<open>res.statusCode\<close>: it computes \<^verbatim>\<open>statusCode |= 0\<close> and throws a
  RangeError unless the result is from 100 to 999. \<open>toInt32\<close> is that conversion on an
  integer.
\<close>

definition toInt32 :: "int \<Rightarrow> int" where
  "toInt32 n = (n + 2147483648) mod 4294967296 - 2147483648"

text \<open>The number that a string of decimal digits spells; \<open>None\<close> for any other
  string.\<close>

fun decimalDigits :: "string \<Rightarrow> int \<Rightarrow> int option" where
  "decimalDigits [] acc = Some acc"
| "decimalDigits (c # cs) acc =
     (let n = (of_char c :: nat)
      in if 48 \<le> n \<and> n \<le> 57 then decimalDigits cs (10 * acc + int (n - 48)) else None)"

text \<open>
  \<^verbatim>\<open>v | 0\<close>. \<^verbatim>\<open>undefined\<close>, \<^verbatim>\<open>null\<close>, \<^verbatim>\<open>false\<close> and
  \<^verbatim>\<open>NaN\<close> give 0 and \<^verbatim>\<open>true\<close> gives 1. The objects of the model are
  functions and plain objects, whose number value is \<^verbatim>\<open>NaN\<close>. A string counts as
  a number here only when it is a run of decimal digits that spells an integer of the
  model; the other spellings that JavaScript reads as numbers (blanks around, signs,
  fractions, exponents, other bases) are not modelled and count as \<^verbatim>\<open>NaN\<close>.
\<close>

fun int32Of :: "jsval \<Rightarrow> int" where
  "int32Of (Prim Undefined) = 0"
| "int32Of (Prim Null) = 0"
| "int32Of (Prim (Boolean b)) = (if b then 1 else 0)"
| "int32Of (Prim (Number n)) = toInt32 n"
| "int32Of (Prim NaN) = 0"
| "int32Of (Prim (String s)) =
     (case decimalDigits s 0 of
        Some v \<Rightarrow> if v < 9007199254740992 then toInt32 v else 0
      | None \<Rightarrow> 0)"
| "int32Of (Object l) = 0"

definition statusAccepted :: "jsval \<Rightarrow> bool" where
  "statusAccepted c = (100 \<le> int32Of c \<and> int32Of c \<le> 999)"

section \<open>The error handler\<close>

text \<open>Line 126: \<^verbatim>\<open>err && err.name === 'UnauthorizedError'\<close>. No primitive has a
  \<^verbatim>\<open>name\<close> property, and a falsy one stops at \<^verbatim>\<open>err &&\<close>.\<close>

fun isUnauthorized :: "js_err \<Rightarrow> bool" where
  "isUnauthorized (ErrPrim p) = False"
| "isUnauthorized (ErrObj e) = (name e = String ''UnauthorizedError'')"

text \<open>Line 129:
  \<^verbatim>\<open>err.statusCode || (err.statusCode = Server.statusCodeByErrorName[err.name] || 500)\<close>
  on an error object. The assignment binds weaker than \<^verbatim>\<open>||\<close>, so the value
  assigned is the table entry or 500. The object is taken to accept the assignment (a
  frozen one would make it throw).\<close>

definition assignStatusCode :: "error_obj \<Rightarrow> error_obj" where
  "assignStatusCode e =
     (if truthy (statusCode e) then e
      else e\<lparr>statusCode :=
               (let v = lookupStatusCode (name e)
                in if truthy v then v else Prim (Number 500))\<rparr>)"

text \<open>
  Lines 125 to 133, the function given to \<^verbatim>\<open>expressApp.use\<close>. The arguments are
  the error's \<^verbatim>\<open>toString\<close> method, the error, and \<^verbatim>\<open>req.logger\<close>
  (\<open>None\<close> when the property was never set). The result is how the call completes, the
  trace of calls it made, and the error as the call leaves it.

  The body is strict code (it is inside a class body). On a primitive, line 129 throws a
  TypeError: reading a property of \<^verbatim>\<open>null\<close> or \<^verbatim>\<open>undefined\<close> throws, and on
  any other primitive the read yields \<^verbatim>\<open>undefined\<close> and the assignment throws.
  When \<^verbatim>\<open>req.logger\<close> is not set, \<^verbatim>\<open>req.logger.error\<close> throws a TypeError
  before its arguments are evaluated. In \<^verbatim>\<open>res.status(c).send(err.toString())\<close>
  the call of \<^verbatim>\<open>status\<close> precedes the call of \<^verbatim>\<open>toString\<close>, and
  \<^verbatim>\<open>send\<close> throws a RangeError, with nothing written, when the response does
  not accept \<open>c\<close>. On line 127 the status is the literal 401, which the response
  accepts. The response is taken not to have been started when the handler runs.
\<close>

fun errorHandler ::
  "(error_obj \<Rightarrow> string) \<Rightarrow> js_err \<Rightarrow> logger option \<Rightarrow> completion \<times> event list \<times> js_err"
where
  "errorHandler toStr (ErrPrim p) reqLogger = (Threw TypeError, [], ErrPrim p)"
| "errorHandler toStr (ErrObj e) reqLogger =
     (if isUnauthorized (ErrObj e) then
        (Returned, [ResStatus (Prim (Number 401)), ResSend (Prim (message e))], ErrObj e)
      else
        let e' = assignStatusCode e in
        (case reqLogger of
           None \<Rightarrow> (Threw TypeError, [], ErrObj e')
         | Some lg \<Rightarrow>
             let calls =
               [ErrToString, LoggerCall lg LError (toStr e') (ErrMeta e'),
                ErrToString, LoggerCall lg LVerbose ''Responding to client'' (TextMeta (toStr e')),
                ResStatus (statusCode e'),
                ErrToString]
             in if statusAccepted (statusCode e')
                then (Returned, calls @ [ResSend (Prim (String (toStr e')))], ErrObj e')
                else (Threw RangeError, calls, ErrObj e')))"

text \<open>What a trace shows of the response and of the log.\<close>

fun response_status :: "event list \<Rightarrow> jsval list" where
  "response_status [] = []"
| "response_status (ResStatus c # evs) = c # response_status evs"
| "response_status (_ # evs) = response_status evs"

fun response_body :: "event list \<Rightarrow> jsval list" where
  "response_body [] = []"
| "response_body (ResSend b # evs) = b # response_body evs"
| "response_body (_ # evs) = response_body evs"


fun is_serialization :: "event \<Rightarrow> bool" where
  "is_serialization ErrToString = True"
| "is_serialization _ = False"

fun is_logger_call :: "event \<Rightarrow> bool" where
  "is_logger_call (LoggerCall lg l msg m) = True"
| "is_logger_call _ = False"

fun log_loggers :: "event list \<Rightarrow> logger list" where
  "log_loggers [] = []"
| "log_loggers (LoggerCall lg l msg m # evs) = lg # log_loggers evs"
| "log_loggers (_ # evs) = log_loggers evs"

text \<open>\<^verbatim>\<open>err.statusCode\<close> on the value the handler leaves behind.\<close>

fun statusCode_of :: "js_err \<Rightarrow> jsval" where
  "statusCode_of (ErrPrim p) = Prim Undefined"
| "statusCode_of (ErrObj e) = statusCode e"


section \<open>The request lifecycle middleware\<close>

text \<open>
  The parts of an incoming request that \<^verbatim>\<open>createReqLogger\<close> reads, and the two
  properties it sets: \<^verbatim>\<open>req._startTime\<close> and \<^verbatim>\<open>req.logger\<close>. The header
  object maps a lower-case header name to its value. The field \<open>httpMethod\<close> is
  \<^verbatim>\<open>req.method\<close>.
\<close>

record request =
  httpVersion :: string
  httpMethod :: string
  url :: string
  headers :: "string \<rightharpoonup> string"
  trailers :: "string \<rightharpoonup> string"
  startTime :: "int option"
  logger :: "logger option"

text \<open>The constructor, line 27: \<^verbatim>\<open>this.logger = logger.child({ context: 'Server' })\<close>.\<close>

definition serverLogger :: "logger \<Rightarrow> logger" where
  "serverLogger lg = Child lg [(''context'', ''Server'')]"

text \<open>
  The function given to \<^verbatim>\<open>onFinished\<close> at line 82 is a closure over
  \<^verbatim>\<open>req\<close>: it holds the request object, and reads its properties when it runs.
  A response that has not finished holds the listeners waiting for its end.
\<close>

datatype listener = OutgoingResponse request

datatype response = Pending "listener list" | Finished

text \<open>
  Modelled from the spec: the completion-hook facility (the package
  \<^verbatim>\<open>on-finished\<close>, not under src/). A hook registered on a response that has not
  finished fires exactly once, when the response stream finishes.
\<close>

definition onFinished :: "listener list \<Rightarrow> listener \<Rightarrow> listener list" where
  "onFinished ls l = ls @ [l]"

text \<open>
  Lines 68 to 93. The arguments are \<^verbatim>\<open>this.logger\<close>, the value of
  \<^verbatim>\<open>Date.now()\<close>, the request, and the listeners already waiting on the response
  (the response handed to the first middleware has not finished). The result is the
  request as the middleware leaves it, the listeners, and the trace; the middleware ends
  with \<^verbatim>\<open>next(null)\<close>.
\<close>

definition createReqLogger ::
  "logger \<Rightarrow> int \<Rightarrow> request \<Rightarrow> listener list \<Rightarrow> request \<times> listener list \<times> event list"
where
  "createReqLogger thisLogger now req ls =
     (let req1 = req\<lparr>startTime := Some now\<rparr>;
          lg = Child thisLogger
                 (case headers req1 ''x-request-id'' of
                    None \<Rightarrow> []
                  | Some v \<Rightarrow> if v \<noteq> [] then [(''requestId'', v)] else []);
          req2 = req1\<lparr>logger := Some lg\<rparr>;
          ingress = LoggerCall lg LInfo ''Incoming request''
                      (IncomingMeta (httpVersion req2) (httpMethod req2) (url req2)
                         (headers req2) (trailers req2))
      in (req2, onFinished ls (OutgoingResponse req2), [ingress]))"

text \<open>
  Lines 83 to 89, the body of the listener, run with the value of
  \<^verbatim>\<open>Date.now()\<close>, \<^verbatim>\<open>res.statusCode\<close> and the request as they are at
  that moment. Without \<^verbatim>\<open>req.logger\<close> or \<^verbatim>\<open>req._startTime\<close> the body
  throws and logs nothing.
\<close>

definition outgoingResponse :: "int \<Rightarrow> jsval \<Rightarrow> request \<Rightarrow> event list" where
  "outgoingResponse now status req =
     (case (logger req, startTime req) of
        (Some lg, Some t0) \<Rightarrow>
          [LoggerCall lg LInfo ''Outgoing response''
             (OutgoingMeta (httpVersion req) (httpMethod req) (url req) status
                (PrettyMs (now - t0)))]
      | _ \<Rightarrow> [])"

text \<open>
  Between \<^verbatim>\<open>createReqLogger\<close> and the end of the response the request object
  changes: Express rewrites \<^verbatim>\<open>req.url\<close> while a mounted router runs. Nothing
  under src/ writes \<^verbatim>\<open>req.logger\<close>, \<^verbatim>\<open>req._startTime\<close>, the method or
  the protocol version after \<^verbatim>\<open>createReqLogger\<close>, so the listener finds them as
  that function left them, and finds the url of the moment, \<open>u\<close>.
\<close>

fun runListener :: "int \<Rightarrow> jsval \<Rightarrow> string \<Rightarrow> listener \<Rightarrow> event list" where
  "runListener now status u (OutgoingResponse req) = outgoingResponse now status (req\<lparr>url := u\<rparr>)"

text \<open>
  Modelled from the spec: the completion-hook facility, when the response stream
  reports an end (finish, close or error), at the given time, with the given
  \<^verbatim>\<open>res.statusCode\<close> and the given \<^verbatim>\<open>req.url\<close>. The first report runs
  the waiting listeners in order; a later one finds the response finished and runs
  nothing.
\<close>

fun streamEnd :: "response \<Rightarrow> int \<times> jsval \<times> string \<Rightarrow> response \<times> event list" where
  "streamEnd (Pending ls) (now, status, u) =
     (Finished, concat (map (runListener now status u) ls))"
| "streamEnd Finished (now, status, u) = (Finished, [])"

fun streamEnds :: "response \<Rightarrow> (int \<times> jsval \<times> string) list \<Rightarrow> event list" where
  "streamEnds res [] = []"
| "streamEnds res (e # es) =
     (let (res', evs) = streamEnd res e in evs @ streamEnds res' es)"

text \<open>
  One request: \<^verbatim>\<open>createReqLogger\<close> is the first middleware of the application
  (line 96), so it runs on the new request and the new response; afterwards the response
  stream reports its ends, each with the time, the status code of the response and the
  url of the request at that moment.
\<close>

definition lifecycle ::
  "logger \<Rightarrow> int \<Rightarrow> request \<Rightarrow> (int \<times> jsval \<times> string) list \<Rightarrow> event list"
where
  "lifecycle thisLogger now req ends =
     (let (req', ls, evs) = createReqLogger thisLogger now req []
      in evs @ streamEnds (Pending ls) ends)"

fun is_ingress :: "event \<Rightarrow> bool" where
  "is_ingress (LoggerCall lg LInfo msg (IncomingMeta v m u hs ts)) = (msg = ''Incoming request'')"
| "is_ingress _ = False"

fun is_egress :: "event \<Rightarrow> bool" where
  "is_egress (LoggerCall lg LInfo msg (OutgoingMeta v m u c d)) = (msg = ''Outgoing response'')"
| "is_egress _ = False"

section \<open>The route table\<close>

text \<open>The middleware and routers that \<^verbatim>\<open>_setupExpressRoutes\<close> mounts (lines 10 to 22).\<close>

datatype middleware =
    authorization
  | rootRouter
  | authRouter
  | userRouter
  | roleRouter
  | statsRouter
  | personRouter
  | permissionRouter
  | notificationRouter
  | organizationRouter
  | personRequestRouter
  | contributorRouter

text \<open>\<^verbatim>\<open>expressApp.use(path, ...fns)\<close> appends one registration: the path prefix
  and the functions it runs, in order.\<close>

type_synonym registration = "string \<times> middleware list"

definition use :: "string \<Rightarrow> middleware list \<Rightarrow> registration list \<Rightarrow> registration list" where
  "use path fns app = app @ [(path, fns)]"

text \<open>Lines 107 to 121.\<close>

definition setupExpressRoutes :: "registration list \<Rightarrow> registration list" where
  "setupExpressRoutes expressApp =
     (let app = use ''/'' [rootRouter] expressApp;
          app = use ''/auth'' [authRouter] app;
          app = use ''/stats'' [authorization, statsRouter] app;
          app = use ''/person'' [personRouter] app;
          app = use ''/notification'' [notificationRouter] app;
          app = use ''/person-request'' [personRequestRouter] app;
          app = use ''/contributor'' [contributorRouter] app;
          app = use ''/user'' [authorization, userRouter] app;
          app = use ''/role'' [authorization, roleRouter] app;
          app = use ''/permission'' [authorization, permissionRouter] app;
          app = use ''/organization'' [authorization, organizationRouter] app
      in app)"

text \<open>The gate stands immediately before the handler group: the registration runs
  \<^verbatim>\<open>authorization\<close> and then one router, nothing else.\<close>

fun gateBeforeHandlers :: "middleware list \<Rightarrow> bool" where
  "gateBeforeHandlers [a, r] = (a = authorization \<and> r \<noteq> authorization)"
| "gateBeforeHandlers _ = False"

section \<open>Facts about the definitions\<close>

lemma assignStatusCode_truthy: "truthy (statusCode (assignStatusCode e))"
  by (simp add: assignStatusCode_def Let_def)

lemma assignStatusCode_name: "name (assignStatusCode e) = name e"
  by (simp add: assignStatusCode_def)

lemma assignStatusCode_idem: "assignStatusCode (assignStatusCode e) = assignStatusCode e"
  by (simp add: assignStatusCode_def Let_def)

lemma lookupStatusCode_other:
  assumes "k \<noteq> ''ValidationError''" "k \<noteq> ''CastError''" "k \<notin> set object_prototype_keys"
  shows "lookupStatusCode (String k) = Prim Undefined"
  using assms
  by (simp add: get_property_def statusCodeByErrorName_def object_prototype_get_def
      object_prototype_keys_def)

lemma streamEnds_Finished: "streamEnds Finished es = []"
  by (induction es) auto

text \<open>A request whose response stream never ends has its ingress entry only.\<close>

lemma lifecycle_unfinished:
  "lifecycle thisLogger now req [] =
     [LoggerCall (Child thisLogger
                    (case headers req ''x-request-id'' of
                       None \<Rightarrow> []
                     | Some v \<Rightarrow> if v \<noteq> [] then [(''requestId'', v)] else []))
        LInfo ''Incoming request''
        (IncomingMeta (httpVersion req) (httpMethod req) (url req) (headers req) (trailers req))]"
  by (simp add: lifecycle_def createReqLogger_def onFinished_def Let_def)

text \<open>Once the stream has ended, at time \<open>t\<close> with status \<open>c\<close> and url \<open>u\<close>,
  later ends add nothing.\<close>

lemma lifecycle_finished:
  "lifecycle thisLogger now req ((t, c, u) # ends) =
     (let lg = Child thisLogger
                 (case headers req ''x-request-id'' of
                    None \<Rightarrow> []
                  | Some v \<Rightarrow> if v \<noteq> [] then [(''requestId'', v)] else [])
      in [LoggerCall lg LInfo ''Incoming request''
            (IncomingMeta (httpVersion req) (httpMethod req) (url req) (headers req) (trailers req)),
          LoggerCall lg LInfo ''Outgoing response''
            (OutgoingMeta (httpVersion req) (httpMethod req) u c (PrettyMs (t - now)))])"
  by (simp add: lifecycle_def createReqLogger_def onFinished_def outgoingResponse_def Let_def
      streamEnds_Finished)

text \<open>\<^verbatim>\<open>createReqLogger\<close> always sets \<^verbatim>\<open>req.logger\<close>, so an error that reaches
  the error handler after it finds a logger.\<close>

lemma createReqLogger_sets_logger:
  "\<exists>lg. logger (fst (createReqLogger thisLogger now req ls)) = Some lg"
  by (simp add: createReqLogger_def Let_def)

lemma setupExpressRoutes_appends:
  "setupExpressRoutes app = app @ setupExpressRoutes []"
  by (simp add: setupExpressRoutes_def use_def)

text \<open>A primitive handed to the error handler makes it throw before any call.\<close>

lemma errorHandler_primitive_throws:
  "errorHandler toStr (ErrPrim p) reqLogger = (Threw TypeError, [], ErrPrim p)"
  by simp

text \<open>Without \<^verbatim>\<open>req.logger\<close>, an error other than an authorization failure makes the
  handler throw after line 129 and before any call.\<close>

lemma errorHandler_needs_logger:
  assumes "\<not> isUnauthorized (ErrObj e)"
  shows "errorHandler toStr (ErrObj e) None = (Threw TypeError, [], ErrObj (assignStatusCode e))"
  using assms by (simp add: Let_def)

text \<open>The response accepts the three statuses that the handler itself supplies, and no
  object.\<close>

lemma statusAccepted_literals:
  "statusAccepted (Prim (Number 401))" "statusAccepted (Prim (Number 400))"
  "statusAccepted (Prim (Number 500))"
  by (simp_all add: statusAccepted_def toInt32_def)

lemma statusAccepted_http:
  assumes "100 \<le> n" "n \<le> 999"
  shows "statusAccepted (Prim (Number n))"
  using assms by (simp add: statusAccepted_def toInt32_def)

lemma statusAccepted_Object: "\<not> statusAccepted (Object l)"
  by (simp add: statusAccepted_def)

text \<open>With the logger in place, \<^verbatim>\<open>res.status\<close> is called once, with the status
  that line 129 left in the error, whether \<^verbatim>\<open>res.send\<close> then returns or not.\<close>

lemma errorHandler_response_status:
  assumes "\<not> isUnauthorized (ErrObj e)"
  shows "response_status (fst (snd (errorHandler toStr (ErrObj e) (Some lg)))) =
           [statusCode (assignStatusCode e)]"
  using assms by (simp add: Let_def)

lemma errorHandler_statusCode_of:
  assumes "\<not> isUnauthorized (ErrObj e)"
  shows "statusCode_of (snd (snd (errorHandler toStr (ErrObj e) reqLogger))) =
           statusCode (assignStatusCode e)"
  using assms by (cases reqLogger) (simp_all add: Let_def)

section \<open>Where the authorization gate stands\<close>

text \<open>
  C1. In the table that \<^verbatim>\<open>_setupExpressRoutes\<close> registers, a prefix has the
  authorization gate immediately before its handler group exactly when it is one of
  \<^verbatim>\<open>/stats\<close>, \<^verbatim>\<open>/user\<close>, \<^verbatim>\<open>/role\<close>, \<^verbatim>\<open>/permission\<close>,
  \<^verbatim>\<open>/organization\<close>; the prefixes \<^verbatim>\<open>/\<close>, \<^verbatim>\<open>/auth\<close>,
  \<^verbatim>\<open>/person\<close>, \<^verbatim>\<open>/notification\<close>, \<^verbatim>\<open>/person-request\<close>,
  \<^verbatim>\<open>/contributor\<close> are registered without the gate. The table holds these
  eleven prefixes, each once, in this order.
\<close>

theorem authorization_gate_placement:
  "(\<forall>(p, fns) \<in> set (setupExpressRoutes []).
      (gateBeforeHandlers fns \<longleftrightarrow>
         p \<in> {''/stats'', ''/user'', ''/role'', ''/permission'', ''/organization''})
    \<and> (p \<in> {''/'', ''/auth'', ''/person'', ''/notification'', ''/person-request'',
              ''/contributor''} \<longrightarrow> authorization \<notin> set fns))
   \<and> map fst (setupExpressRoutes []) =
       [''/'', ''/auth'', ''/stats'', ''/person'', ''/notification'', ''/person-request'',
        ''/contributor'', ''/user'', ''/role'', ''/permission'', ''/organization'']"
  by (simp add: setupExpressRoutes_def use_def)

theorem authorization_gate_placement_witness:
  "(''/stats'', [authorization, statsRouter]) \<in> set (setupExpressRoutes [])
   \<and> gateBeforeHandlers [authorization, statsRouter]
   \<and> (''/person'', [personRouter]) \<in> set (setupExpressRoutes [])
   \<and> \<not> gateBeforeHandlers [personRouter]
   \<and> authorization \<notin> set [personRouter]"
  using authorization_gate_placement by (simp add: setupExpressRoutes_def use_def)

section \<open>Authorization failures\<close>

text \<open>
  C2. An error whose \<^verbatim>\<open>name\<close> is \<^verbatim>\<open>'UnauthorizedError'\<close> is answered with
  status 401 and \<^verbatim>\<open>err.message\<close> itself as the body. The handler returns
  normally whether \<^verbatim>\<open>req.logger\<close> is set or not, never calls
  \<^verbatim>\<open>err.toString()\<close>, makes no other call and leaves the error as it was.
\<close>

theorem unauthorized_responds_401:
  assumes "name e = String ''UnauthorizedError''"
  shows "errorHandler toStr (ErrObj e) reqLogger =
           (Returned, [ResStatus (Prim (Number 401)), ResSend (Prim (message e))], ErrObj e)
         \<and> filter is_serialization (fst (snd (errorHandler toStr (ErrObj e) reqLogger))) = []"
  using assms by simp

theorem unauthorized_responds_401_witness:
  "name \<lparr>name = String ''UnauthorizedError'',
         message = String ''No authorization token was found'',
         statusCode = Prim Undefined\<rparr> = String ''UnauthorizedError''
   \<and> errorHandler errorToString
        (ErrObj \<lparr>name = String ''UnauthorizedError'',
                 message = String ''No authorization token was found'',
                 statusCode = Prim Undefined\<rparr>) None =
       (Returned,
        [ResStatus (Prim (Number 401)),
         ResSend (Prim (String ''No authorization token was found''))],
        ErrObj \<lparr>name = String ''UnauthorizedError'',
                 message = String ''No authorization token was found'',
                 statusCode = Prim Undefined\<rparr>)"
  using unauthorized_responds_401
    [of "\<lparr>name = String ''UnauthorizedError'',
          message = String ''No authorization token was found'',
          statusCode = Prim Undefined\<rparr>" errorToString None]
  by simp

section \<open>The status code of the other errors\<close>

text \<open>
  The order of line 129, with the logger in place or not: the error's own
  \<^verbatim>\<open>statusCode\<close> when it is truthy, unchanged; otherwise what the read
  \<^verbatim>\<open>Server.statusCodeByErrorName[err.name]\<close> yields, when that is truthy;
  otherwise 500.
\<close>

lemma status_code_order:
  assumes "\<not> isUnauthorized (ErrObj e)"
  shows "response_status (fst (snd (errorHandler toStr (ErrObj e) (Some lg)))) =
           [if truthy (statusCode e) then statusCode e
            else if truthy (lookupStatusCode (name e)) then lookupStatusCode (name e)
            else Prim (Number 500)]
         \<and> statusCode_of (snd (snd (errorHandler toStr (ErrObj e) reqLogger))) =
           (if truthy (statusCode e) then statusCode e
            else if truthy (lookupStatusCode (name e)) then lookupStatusCode (name e)
            else Prim (Number 500))"
  unfolding errorHandler_response_status [OF assms] errorHandler_statusCode_of [OF assms]
  by (simp add: assignStatusCode_def Let_def)

text \<open>
  For a kind that names no property of \<^verbatim>\<open>Object.prototype\<close>, the read yields the
  entry of the table or nothing, so the status is the error's own status code, else the
  entry of the table for the kind, else 500.
\<close>

lemma lookupStatusCode_entry:
  assumes "k \<notin> set object_prototype_keys"
  shows "lookupStatusCode (String k) =
           (case map_of statusCodeByErrorName k of Some c \<Rightarrow> c | None \<Rightarrow> Prim Undefined)"
  using assms
  by (simp add: get_property_def object_prototype_get_def object_prototype_keys_def
      split: option.splits)

lemma status_code_in_table_order:
  assumes "\<not> isUnauthorized (ErrObj e)" "name e = String k" "k \<notin> set object_prototype_keys"
  shows "response_status (fst (snd (errorHandler toStr (ErrObj e) (Some lg)))) =
           [if truthy (statusCode e) then statusCode e
            else case map_of statusCodeByErrorName k of
                   Some c \<Rightarrow> c
                 | None \<Rightarrow> Prim (Number 500)]"
proof -
  have "truthy c" if "map_of statusCodeByErrorName k = Some c" for c
    using that by (auto simp: statusCodeByErrorName_def split: if_splits)
  then show ?thesis
    unfolding errorHandler_response_status [OF assms(1)]
    using assms(2) lookupStatusCode_entry [OF assms(3)]
    by (auto simp: assignStatusCode_def Let_def split: option.splits)
qed

text \<open>
  C3. The claim takes the status from the error's own status code, else from the entry
  of the static table for the error's kind, else from the default 500. The handler does
  not keep to this for a kind that names a property of \<^verbatim>\<open>Object.prototype\<close>.
  The error \<^verbatim>\<open>{ name: 'hasOwnProperty', message: 'boom' }\<close> has no status code
  and its kind has no entry in the table, so the claim gives it 500; the handler hands
  the inherited function to \<^verbatim>\<open>res.status\<close> and leaves it in
  \<^verbatim>\<open>err.statusCode\<close>.
\<close>

theorem inherited_kind_breaks_precedence:
  "\<not> truthy (statusCode \<lparr>name = String ''hasOwnProperty'', message = String ''boom'',
                          statusCode = Prim Undefined\<rparr>)
   \<and> map_of statusCodeByErrorName ''hasOwnProperty'' = None
   \<and> response_status (fst (snd (errorHandler errorToString
        (ErrObj \<lparr>name = String ''hasOwnProperty'', message = String ''boom'',
                 statusCode = Prim Undefined\<rparr>) (Some RootLogger)))) =
       [Object ''Object.prototype.hasOwnProperty'']
   \<and> statusCode_of (snd (snd (errorHandler errorToString
        (ErrObj \<lparr>name = String ''hasOwnProperty'', message = String ''boom'',
                 statusCode = Prim Undefined\<rparr>) (Some RootLogger)))) =
       Object ''Object.prototype.hasOwnProperty''"
  by (simp add: assignStatusCode_def Let_def get_property_def statusCodeByErrorName_def
      object_prototype_get_def object_prototype_keys_def)

text \<open>The two kinds of the table, and the kinds that the read does not find.\<close>

lemma validation_error_400:
  assumes "name e = String ''ValidationError''" "\<not> truthy (statusCode e)"
  shows "response_status (fst (snd (errorHandler toStr (ErrObj e) (Some lg)))) =
           [Prim (Number 400)]"
  using assms errorHandler_response_status [of e toStr lg]
  by (simp add: assignStatusCode_def Let_def get_property_def statusCodeByErrorName_def)

lemma cast_error_400:
  assumes "name e = String ''CastError''" "\<not> truthy (statusCode e)"
  shows "response_status (fst (snd (errorHandler toStr (ErrObj e) (Some lg)))) =
           [Prim (Number 400)]"
  using assms errorHandler_response_status [of e toStr lg]
  by (simp add: assignStatusCode_def Let_def get_property_def statusCodeByErrorName_def)

lemma other_kind_500:
  assumes "name e = String k" "k \<noteq> ''UnauthorizedError''" "k \<noteq> ''ValidationError''"
    "k \<noteq> ''CastError''" "k \<notin> set object_prototype_keys" "\<not> truthy (statusCode e)"
  shows "response_status (fst (snd (errorHandler toStr (ErrObj e) (Some lg)))) =
           [Prim (Number 500)]"
proof -
  have "lookupStatusCode (name e) = Prim Undefined"
    using assms lookupStatusCode_other [of k] by simp
  with assms errorHandler_response_status [of e toStr lg] show ?thesis
    by (simp add: assignStatusCode_def Let_def)
qed

lemma missing_kind_500:
  assumes "\<forall>k. name e \<noteq> String k" "\<not> truthy (statusCode e)"
  shows "response_status (fst (snd (errorHandler toStr (ErrObj e) (Some lg)))) =
           [Prim (Number 500)]"
  using assms errorHandler_response_status [of e toStr lg]
  by (cases "name e") (simp_all add: assignStatusCode_def Let_def)

text \<open>
  C4. The claim gives 400 to \<^verbatim>\<open>ValidationError\<close> and to \<^verbatim>\<open>CastError\<close>
  and 500 to every other kind, when the error has no status code of its own. The first
  two hold (\<open>validation_error_400\<close>, \<open>cast_error_400\<close>). The third fails for a kind
  that names a property of \<^verbatim>\<open>Object.prototype\<close>: the read at line 129 finds the
  inherited property, a function, and that function becomes the status. Here the error
  is \<^verbatim>\<open>{ name: 'constructor', message: 'boom' }\<close> and the status handed to
  \<^verbatim>\<open>res.status\<close> is the function \<^verbatim>\<open>Object\<close>.
\<close>

theorem inherited_kind_not_500:
  "response_status (fst (snd (errorHandler errorToString
      (ErrObj \<lparr>name = String ''constructor'', message = String ''boom'',
               statusCode = Prim Undefined\<rparr>) (Some RootLogger)))) = [Object ''Object'']"
  by (simp add: assignStatusCode_def Let_def get_property_def statusCodeByErrorName_def
      object_prototype_get_def statusAccepted_def)

text \<open>
  C6. The claim has every kind that the table does not list resolve to 500, with a
  response written and nothing thrown. A missing kind and a kind that is not a string do
  resolve to 500 (\<open>missing_kind_500\<close>), and so does a string that names no property of
  \<^verbatim>\<open>Object.prototype\<close> (\<open>other_kind_500\<close>). A kind such as
  \<^verbatim>\<open>'toString'\<close> does not: the handler stores the inherited function in
  \<^verbatim>\<open>err.statusCode\<close> and hands it to \<^verbatim>\<open>res.status\<close>; the response
  does not accept it, so \<^verbatim>\<open>res.send\<close> throws a RangeError out of the handler
  and no response is written.
\<close>

theorem inherited_kind_not_default:
  "errorHandler errorToString
     (ErrObj \<lparr>name = String ''toString'', message = String ''boom'',
              statusCode = Prim Undefined\<rparr>) (Some RootLogger) =
     (Threw RangeError,
      [ErrToString,
       LoggerCall RootLogger LError ''toString: boom''
         (ErrMeta \<lparr>name = String ''toString'', message = String ''boom'',
                   statusCode = Object ''Object.prototype.toString''\<rparr>),
       ErrToString,
       LoggerCall RootLogger LVerbose ''Responding to client'' (TextMeta ''toString: boom''),
       ResStatus (Object ''Object.prototype.toString''),
       ErrToString],
      ErrObj \<lparr>name = String ''toString'', message = String ''boom'',
               statusCode = Object ''Object.prototype.toString''\<rparr>)"
  by (simp add: assignStatusCode_def Let_def get_property_def statusCodeByErrorName_def
      object_prototype_get_def object_prototype_keys_def errorToString_def
      statusAccepted_def)

text \<open>
  C10. For an error object that is not an authorization failure and has no (truthy)
  status code, the handler assigns the computed status to \<^verbatim>\<open>err.statusCode\<close> of
  the very object it was given, so the object is not left as it was. The assignment
  comes first: it has happened even when the handler then throws for want of
  \<^verbatim>\<open>req.logger\<close>, and the entry logged, the string form and the response are all
  of the object that already holds the status. The response is written when it accepts
  the status.
\<close>

theorem status_code_assigned_in_place:
  assumes "\<not> isUnauthorized (ErrObj e)" "\<not> truthy (statusCode e)"
  shows "let c = (if truthy (lookupStatusCode (name e)) then lookupStatusCode (name e)
                  else Prim (Number 500));
             e' = e\<lparr>statusCode := c\<rparr>
         in snd (snd (errorHandler toStr (ErrObj e) reqLogger)) = ErrObj e'
          \<and> e' \<noteq> e
          \<and> fst (snd (errorHandler toStr (ErrObj e) (Some lg))) =
              [ErrToString, LoggerCall lg LError (toStr e') (ErrMeta e'),
               ErrToString, LoggerCall lg LVerbose ''Responding to client'' (TextMeta (toStr e')),
               ResStatus c,
               ErrToString]
              @ (if statusAccepted c then [ResSend (Prim (String (toStr e')))] else [])"
proof -
  let ?c = "if truthy (lookupStatusCode (name e)) then lookupStatusCode (name e)
            else Prim (Number 500)"
  have assigned: "assignStatusCode e = e\<lparr>statusCode := ?c\<rparr>"
    using assms(2) by (simp add: assignStatusCode_def Let_def)
  have "truthy ?c" by simp
  with assms(2) have "statusCode (e\<lparr>statusCode := ?c\<rparr>) \<noteq> statusCode e"
    by auto
  then have changed: "e\<lparr>statusCode := ?c\<rparr> \<noteq> e"
    by (auto dest: arg_cong [where f = statusCode])
  show ?thesis
    using assms(1) assigned changed by (cases reqLogger) (simp_all add: Let_def)
qed

theorem status_code_assigned_in_place_witness:
  "\<not> isUnauthorized
       (ErrObj \<lparr>name = String ''CastError'', message = String ''bad id'',
                statusCode = Prim Undefined\<rparr>)
   \<and> \<not> truthy (statusCode \<lparr>name = String ''CastError'', message = String ''bad id'',
                            statusCode = Prim Undefined\<rparr>)
   \<and> snd (snd (errorHandler errorToString
        (ErrObj \<lparr>name = String ''CastError'', message = String ''bad id'',
                 statusCode = Prim Undefined\<rparr>) None)) =
       ErrObj \<lparr>name = String ''CastError'', message = String ''bad id'',
                statusCode = Prim (Number 400)\<rparr>"
  using status_code_assigned_in_place
    [of "\<lparr>name = String ''CastError'', message = String ''bad id'',
          statusCode = Prim Undefined\<rparr>" errorToString None RootLogger]
  by (simp add: Let_def get_property_def statusCodeByErrorName_def)

section \<open>One response, and the record of the error\<close>




text \<open>A status that the response does not accept, such as 99999 set by the code that
  raised the error, makes the handler throw after the two entries, with no response.\<close>

lemma errorHandler_rejected_number:
  assumes "\<not> isUnauthorized (ErrObj e)" "statusCode e = Prim (Number n)" "n \<noteq> 0"
    "\<not> statusAccepted (Prim (Number n))"
  shows "fst (errorHandler toStr (ErrObj e) (Some lg)) = Threw RangeError
       \<and> response_body (fst (snd (errorHandler toStr (ErrObj e) (Some lg)))) = []
       \<and> length (filter is_logger_call (fst (snd (errorHandler toStr (ErrObj e) (Some lg))))) = 2"
  using assms by (simp add: Let_def assignStatusCode_def)

section \<open>The classifier is a function of the kind and the status code\<close>

text \<open>
  C8. Two error objects that agree on \<^verbatim>\<open>name\<close> and on
  \<^verbatim>\<open>statusCode\<close>, handled on requests that both have a logger or both have none,
  are classified alike: the same path, the same way of completing, the same status
  given to the response, the same status stored in the error; the message, the string
  form and the logger make no difference. Handling the error a second time, as the first
  handling left it, gives the same status again: the table is never written.
\<close>

theorem classifier_deterministic:
  assumes "name e1 = name e2" "statusCode e1 = statusCode e2" "(r1 = None) = (r2 = None)"
  shows "isUnauthorized (ErrObj e1) = isUnauthorized (ErrObj e2)
       \<and> fst (errorHandler t1 (ErrObj e1) r1) = fst (errorHandler t2 (ErrObj e2) r2)
       \<and> response_status (fst (snd (errorHandler t1 (ErrObj e1) r1))) =
         response_status (fst (snd (errorHandler t2 (ErrObj e2) r2)))
       \<and> statusCode_of (snd (snd (errorHandler t1 (ErrObj e1) r1))) =
         statusCode_of (snd (snd (errorHandler t2 (ErrObj e2) r2)))
       \<and> response_status
           (fst (snd (errorHandler t1 (snd (snd (errorHandler t1 (ErrObj e1) r1))) r1))) =
         response_status (fst (snd (errorHandler t1 (ErrObj e1) r1)))"
  using assms
  by (cases r1; cases r2)
    (simp_all add: assignStatusCode_name assignStatusCode_idem,
     simp_all add: assignStatusCode_def Let_def)

theorem classifier_deterministic_witness:
  "name \<lparr>name = String ''ValidationError'', message = String ''first'',
         statusCode = Prim Undefined\<rparr> =
   name \<lparr>name = String ''ValidationError'', message = String ''second'',
         statusCode = Prim Undefined\<rparr>
   \<and> response_status (fst (snd (errorHandler errorToString
        (ErrObj \<lparr>name = String ''ValidationError'', message = String ''first'',
                 statusCode = Prim Undefined\<rparr>) (Some RootLogger)))) =
     response_status (fst (snd (errorHandler errorToString
        (ErrObj \<lparr>name = String ''ValidationError'', message = String ''second'',
                 statusCode = Prim Undefined\<rparr>) (Some (Child RootLogger [])))))"
  using classifier_deterministic
    [of "\<lparr>name = String ''ValidationError'', message = String ''first'',
          statusCode = Prim Undefined\<rparr>"
        "\<lparr>name = String ''ValidationError'', message = String ''second'',
          statusCode = Prim Undefined\<rparr>"
        "Some RootLogger" "Some (Child RootLogger [])" errorToString errorToString]
  by simp

section \<open>Ingress and egress entries\<close>

text \<open>
  C5. For a request whose response stream ends, however it ends and however many ends
  the stream reports (finish and close on success or after the error handler has
  answered, close alone when the client has gone), the lifecycle middleware and its
  listener log exactly two entries: one ingress entry, then one egress entry.
\<close>

theorem one_ingress_then_one_egress:
  assumes "ends \<noteq> []"
  shows "\<exists>i e. lifecycle thisLogger now req ends = [i, e]
               \<and> is_ingress i \<and> is_egress e
               \<and> length (filter is_ingress (lifecycle thisLogger now req ends)) = 1
               \<and> length (filter is_egress (lifecycle thisLogger now req ends)) = 1"
proof (cases ends)
  case Nil
  with assms show ?thesis by simp
next
  case (Cons a rest)
  obtain t c u where a: "a = (t, c, u)" by (cases a)
  show ?thesis
    unfolding Cons a lifecycle_finished by (simp add: Let_def)
qed

theorem one_ingress_then_one_egress_witness:
  "[(1015, Prim (Number 200), ''/''), (1016, Prim (Number 200), ''/'')] \<noteq> []
   \<and> length (filter is_egress (lifecycle (serverLogger RootLogger) 1000
        \<lparr>httpVersion = ''1.1'', httpMethod = ''GET'', url = ''/'', headers = Map.empty,
         trailers = Map.empty, startTime = None, logger = None\<rparr>
        [(1015, Prim (Number 200), ''/''), (1016, Prim (Number 200), ''/'')])) = 1
   \<and> length (filter is_ingress (lifecycle (serverLogger RootLogger) 1000
        \<lparr>httpVersion = ''1.1'', httpMethod = ''GET'', url = ''/'', headers = Map.empty,
         trailers = Map.empty, startTime = None, logger = None\<rparr>
        [(1015, Prim (Number 200), ''/''), (1016, Prim (Number 200), ''/'')])) = 1"
  using one_ingress_then_one_egress
    [of "[(1015, Prim (Number 200), ''/''), (1016, Prim (Number 200), ''/'')]" "serverLogger RootLogger" 1000
        "\<lparr>httpVersion = ''1.1'', httpMethod = ''GET'', url = ''/'', headers = Map.empty,
          trailers = Map.empty, startTime = None, logger = None\<rparr>"]
  by auto

text \<open>
  C9. \<^verbatim>\<open>createReqLogger\<close> gives every request a logger of its own, a child of
  the server's logger. When the request has a non-empty \<^verbatim>\<open>x-request-id\<close> header,
  the child is made with \<^verbatim>\<open>{ requestId: <the header> }\<close>; when the header is
  absent (or empty), with \<^verbatim>\<open>{}\<close>. Every entry that the lifecycle middleware, its
  listener and the error handler log for the request is logged on that child.
\<close>

theorem request_id_in_scoped_logger:
  "(\<forall>v. headers req ''x-request-id'' = Some v \<and> v \<noteq> [] \<longrightarrow>
        logger (fst (createReqLogger thisLogger now req ls)) =
          Some (Child thisLogger [(''requestId'', v)])
      \<and> set (log_loggers (lifecycle thisLogger now req ends))
          \<subseteq> {Child thisLogger [(''requestId'', v)]})
 \<and> (headers req ''x-request-id'' = None \<or> headers req ''x-request-id'' = Some [] \<longrightarrow>
        logger (fst (createReqLogger thisLogger now req ls)) = Some (Child thisLogger [])
      \<and> set (log_loggers (lifecycle thisLogger now req ends)) \<subseteq> {Child thisLogger []})
 \<and> set (log_loggers (fst (snd (errorHandler toStr err
          (logger (fst (createReqLogger thisLogger now req ls)))))))
      \<subseteq> set_option (logger (fst (createReqLogger thisLogger now req ls)))"
proof -
  have handler: "set (log_loggers (fst (snd (errorHandler toStr err (Some lg))))) \<subseteq> {lg}" for lg
    by (cases err) (simp_all add: Let_def)
  obtain lg where lg: "logger (fst (createReqLogger thisLogger now req ls)) = Some lg"
    using createReqLogger_sets_logger by blast
  have third: "set (log_loggers (fst (snd (errorHandler toStr err
          (logger (fst (createReqLogger thisLogger now req ls)))))))
      \<subseteq> set_option (logger (fst (createReqLogger thisLogger now req ls)))"
    unfolding lg using handler [of lg] by simp
  show ?thesis
  proof (cases ends)
    case Nil
    show ?thesis
      unfolding Nil lifecycle_unfinished using third
      by (auto simp: createReqLogger_def Let_def)
  next
    case (Cons a rest)
    obtain t c u where a: "a = (t, c, u)" by (cases a)
    show ?thesis
      unfolding Cons a lifecycle_finished using third
      by (auto simp: createReqLogger_def Let_def)
  qed
qed

theorem request_id_in_scoped_logger_witness:
  "logger (fst (createReqLogger (serverLogger RootLogger) 1000
      \<lparr>httpVersion = ''1.1'', httpMethod = ''GET'', url = ''/person'',
       headers = [''x-request-id'' \<mapsto> ''req-42''],
       trailers = Map.empty, startTime = None, logger = None\<rparr> [])) =
     Some (Child (serverLogger RootLogger) [(''requestId'', ''req-42'')])
   \<and> logger (fst (createReqLogger (serverLogger RootLogger) 1000
      \<lparr>httpVersion = ''1.1'', httpMethod = ''GET'', url = ''/person'',
       headers = Map.empty,
       trailers = Map.empty, startTime = None, logger = None\<rparr> [])) =
     Some (Child (serverLogger RootLogger) [])"
  using request_id_in_scoped_logger
    [of "\<lparr>httpVersion = ''1.1'', httpMethod = ''GET'', url = ''/person'',
          headers = [''x-request-id'' \<mapsto> ''req-42''],
          trailers = Map.empty, startTime = None, logger = None\<rparr>"
        "serverLogger RootLogger" 1000 "[]" "[]" errorToString "ErrPrim Undefined"]
    request_id_in_scoped_logger
    [of "\<lparr>httpVersion = ''1.1'', httpMethod = ''GET'', url = ''/person'',
          headers = Map.empty,
          trailers = Map.empty, startTime = None, logger = None\<rparr>"
        "serverLogger RootLogger" 1000 "[]" "[]" errorToString "ErrPrim Undefined"]
  by simp


end
